theory Spec2Isabelle
  imports Complex_Main
begin

section \<open>Python values, exceptions and strings\<close>

text \<open>
  The exceptions that the modelled part of \<^verbatim>\<open>cams/CHARIS.py\<close> can raise. \<open>CHARISError\<close> is
  the personality's own class (a subclass of the framework's \<open>CamCommandError\<close>); the others are
  Python built-ins. \<open>NameError\<close> stands for \<^verbatim>\<open>UnboundLocalError\<close>, its subclass.
\<close>

datatype error =
    IOError
  | ValueError
  | IndexError
  | KeyError string
  | TypeError
  | AttributeError
  | NameError
  | OverflowError
  | CamCommandError string
  | CHARISError string

text \<open>
  A Python float. Finite values are kept as exact rationals: the rounding and the overflow of
  IEEE doubles are not part of the model, the special values are.
\<close>

datatype pyfloat = Fin rat | PInf | NInf | NaN

datatype pyval =
    VStr string
  | VFloat pyfloat
  | VInt int
  | VBool bool
  | VNone

definition ebind :: "error + 'a \<Rightarrow> ('a \<Rightarrow> error + 'b) \<Rightarrow> error + 'b" where
  "ebind m f = (case m of Inl e \<Rightarrow> Inl e | Inr x \<Rightarrow> f x)"

definition py_index :: "'a list \<Rightarrow> nat \<Rightarrow> error + 'a" where
  \<comment> \<open>\<^verbatim>\<open>xs[i]\<close> for a non-negative literal index\<close>
  "py_index xs i = (if i < length xs then Inr (xs ! i) else Inl IndexError)"

definition py_getitem :: "(string \<rightharpoonup> 'v) \<Rightarrow> string \<Rightarrow> error + 'v" where
  \<comment> \<open>\<^verbatim>\<open>d[k]\<close> on a dict\<close>
  "py_getitem d k = (case d k of None \<Rightarrow> Inl (KeyError k) | Some v \<Rightarrow> Inr v)"

definition py_isspace :: "char \<Rightarrow> bool" where
  \<comment> \<open>the whitespace of \<^verbatim>\<open>str.split()\<close>, \<^verbatim>\<open>str.strip()\<close> and of \<^verbatim>\<open>\s\<close> on byte strings\<close>
  "py_isspace c \<longleftrightarrow> c \<in> set [CHR '' '', CHR 0x09, CHR 0x0A, CHR 0x0B, CHR 0x0C, CHR 0x0D]"

definition py_strip :: "string \<Rightarrow> string" where
  "py_strip s = rev (dropWhile py_isspace (rev (dropWhile py_isspace s)))"

fun split_ws :: "string \<Rightarrow> string \<Rightarrow> string list" where
  \<comment> \<open>\<^verbatim>\<open>s.split()\<close>: the first argument is the token being read\<close>
  "split_ws cur [] = (if cur = [] then [] else [cur])"
| "split_ws cur (c # cs) =
     (if py_isspace c then (if cur = [] then split_ws [] cs else cur # split_ws [] cs)
      else split_ws (cur @ [c]) cs)"

definition py_split :: "string \<Rightarrow> string list" where
  "py_split s = split_ws [] s"

fun split_on :: "char \<Rightarrow> string \<Rightarrow> string \<Rightarrow> string list" where
  \<comment> \<open>\<^verbatim>\<open>s.split(d)\<close> for a one-character delimiter: empty fields are kept\<close>
  "split_on d cur [] = [cur]"
| "split_on d cur (c # cs) =
     (if c = d then cur # split_on d [] cs else split_on d (cur @ [c]) cs)"

definition py_split_on :: "char \<Rightarrow> string \<Rightarrow> string list" where
  "py_split_on d s = split_on d [] s"





subsection \<open>Number parsing: \<^verbatim>\<open>float(s)\<close> and \<^verbatim>\<open>long(s)\<close>\<close>

definition is_digit :: "char \<Rightarrow> bool" where
  "is_digit c \<longleftrightarrow> c \<in> set ''0123456789''"

definition digit_val :: "char \<Rightarrow> nat" where
  "digit_val c = (of_char c :: nat) - 48"

definition digits_val :: "string \<Rightarrow> nat" where
  "digits_val ds = foldl (\<lambda>a c. 10 * a + digit_val c) 0 ds"

definition to_lower :: "char \<Rightarrow> char" where
  "to_lower c = (if (65::nat) \<le> of_char c \<and> (of_char c :: nat) \<le> 90
                 then char_of ((of_char c :: nat) + 32) else c)"

definition to_upper :: "char \<Rightarrow> char" where
  "to_upper c = (if (97::nat) \<le> of_char c \<and> (of_char c :: nat) \<le> 122
                 then char_of ((of_char c :: nat) - 32) else c)"

definition split_sign :: "string \<Rightarrow> bool \<times> string" where
  \<comment> \<open>an optional leading sign; the flag is True for \<open>-\<close>\<close>
  "split_sign s = (case s of [] \<Rightarrow> (False, [])
                   | c # cs \<Rightarrow> if c = CHR ''-'' then (True, cs)
                              else if c = CHR ''+'' then (False, cs) else (False, s))"

definition pow10 :: "int \<Rightarrow> rat" where
  "pow10 e = (if 0 \<le> e then 10 ^ nat e else 1 / 10 ^ nat (- e))"

definition parse_exponent :: "string \<Rightarrow> int option" where
  \<comment> \<open>what may follow the mantissa: nothing, or \<open>e\<close>/\<open>E\<close>, an optional sign and digits\<close>
  "parse_exponent s =
     (case s of [] \<Rightarrow> Some 0
      | c # cs \<Rightarrow>
          if c = CHR ''e'' \<or> c = CHR ''E'' then
            (let (neg, ds) = split_sign cs in
             if ds \<noteq> [] \<and> list_all is_digit ds
             then Some (if neg then - int (digits_val ds) else int (digits_val ds))
             else None)
          else None)"

definition parse_decimal :: "string \<Rightarrow> rat option" where
  \<comment> \<open>unsigned decimal literal: digits, optional point and digits, optional exponent\<close>
  "parse_decimal s =
     (let ip = takeWhile is_digit s; r1 = dropWhile is_digit s;
          (fp, r2) = (case r1 of [] \<Rightarrow> ([], [])
                      | c # cs \<Rightarrow> if c = CHR ''.''
                                 then (takeWhile is_digit cs, dropWhile is_digit cs)
                                 else ([], r1))
      in if ip = [] \<and> fp = [] then None
         else (case parse_exponent r2 of None \<Rightarrow> None
               | Some e \<Rightarrow>
                   Some (of_nat (digits_val (ip @ fp)) / 10 ^ length fp * pow10 e)))"

definition float_of_string :: "string \<Rightarrow> pyfloat option" where
  \<comment> \<open>\<^verbatim>\<open>float(s)\<close> on a string: surrounding whitespace is ignored, \<open>inf\<close>, \<open>infinity\<close> and
      \<open>nan\<close> are accepted in any case; None is the \<^verbatim>\<open>ValueError\<close>\<close>
  "float_of_string s =
     (let (neg, body) = split_sign (py_strip s); low = map to_lower body in
      if low = ''inf'' \<or> low = ''infinity'' then Some (if neg then NInf else PInf)
      else if low = ''nan'' then Some NaN
      else (case parse_decimal body of None \<Rightarrow> None
            | Some r \<Rightarrow> Some (Fin (if neg then - r else r))))"


definition py_float :: "pyval \<Rightarrow> error + pyfloat" where
  \<comment> \<open>the builtin \<^verbatim>\<open>float(v)\<close>\<close>
  "py_float v =
     (case v of
        VStr s \<Rightarrow> (case float_of_string s of None \<Rightarrow> Inl ValueError | Some f \<Rightarrow> Inr f)
      | VFloat f \<Rightarrow> Inr f
      | VInt i \<Rightarrow> Inr (Fin (of_int i))
      | VBool b \<Rightarrow> Inr (Fin (if b then 1 else 0))
      | VNone \<Rightarrow> Inl TypeError)"

subsection \<open>Float arithmetic\<close>

fun fneg :: "pyfloat \<Rightarrow> pyfloat" where
  "fneg (Fin a) = Fin (- a)"
| "fneg PInf = NInf"
| "fneg NInf = PInf"
| "fneg NaN = NaN"

fun fadd :: "pyfloat \<Rightarrow> pyfloat \<Rightarrow> pyfloat" where
  "fadd (Fin a) (Fin b) = Fin (a + b)"
| "fadd NaN _ = NaN"
| "fadd _ NaN = NaN"
| "fadd PInf NInf = NaN"
| "fadd NInf PInf = NaN"
| "fadd PInf _ = PInf"
| "fadd NInf _ = NInf"
| "fadd _ PInf = PInf"
| "fadd _ NInf = NInf"

definition fsub :: "pyfloat \<Rightarrow> pyfloat \<Rightarrow> pyfloat" where
  "fsub a b = fadd a (fneg b)"

fun fmulc :: "rat \<Rightarrow> pyfloat \<Rightarrow> pyfloat" where
  \<comment> \<open>\<^verbatim>\<open>k * x\<close> for a positive finite constant \<open>k\<close>\<close>
  "fmulc k (Fin a) = Fin (k * a)"
| "fmulc k x = x"

fun fdivc :: "pyfloat \<Rightarrow> rat \<Rightarrow> pyfloat" where
  \<comment> \<open>\<^verbatim>\<open>x / k\<close> for a positive finite constant \<open>k\<close>\<close>
  "fdivc (Fin a) k = Fin (a / k)"
| "fdivc x k = x"

definition is_inf :: "pyfloat \<Rightarrow> bool" where
  "is_inf x \<longleftrightarrow> x = PInf \<or> x = NInf"

section \<open>The header-definition table (\<^verbatim>\<open>read_header_list\<close>, \<^verbatim>\<open>init_stat_dict\<close>)\<close>

text \<open>
  One entry of the table is the tuple that \<^verbatim>\<open>zip\<close> builds: status alias, FITS keyword, type
  name, default value, comment. The file system is a partial map from file names to contents;
  a name outside its domain cannot be opened.
\<close>

type_synonym entry = "string \<times> string \<times> string \<times> pyval \<times> string"








definition init_stat_dict :: "entry list \<Rightarrow> (string \<rightharpoonup> pyval)" where
  "init_stat_dict header =
     foldl (\<lambda>statusDict (alias, key, ty, dflt, cmt).
              if alias \<noteq> ''NA'' then statusDict(alias \<mapsto> dflt) else statusDict)
           Map.empty header"

section \<open>FITS headers\<close>

text \<open>
  \<^verbatim>\<open>astropy.io.fits.Header\<close> is library code. The model keeps what \<^verbatim>\<open>fetch_header\<close> relies
  on: a header is the list of its cards (keyword, value, comment); keywords are stored in upper
  case, so that lookups ignore case; \<^verbatim>\<open>set\<close> replaces value and comment of the first card
  with that keyword and appends a new card when there is none; a commentary keyword always
  appends. The library's checks of keyword and value syntax are not modelled.
\<close>

type_synonym card = "string \<times> pyval \<times> string"

type_synonym header = "card list"

definition norm_key :: "string \<Rightarrow> string" where
  "norm_key k = map to_upper k"

definition commentary :: "string \<Rightarrow> bool" where
  "commentary k \<longleftrightarrow> k \<in> set [''COMMENT'', ''HISTORY'', []]"

fun upd_card :: "string \<Rightarrow> pyval \<Rightarrow> string \<Rightarrow> header \<Rightarrow> header" where
  "upd_card k v c [] = []"
| "upd_card k v c ((k', v', c') # h) =
     (if k' = k then (k, v, c) # h else (k', v', c') # upd_card k v c h)"

definition hdr_set :: "string \<Rightarrow> pyval \<Rightarrow> string \<Rightarrow> header \<Rightarrow> header" where
  \<comment> \<open>\<^verbatim>\<open>hdr.set(k, v, c)\<close>\<close>
  "hdr_set k v c h =
     (let K = norm_key k in
      if \<not> commentary K \<and> K \<in> fst ` set h then upd_card K v c h else h @ [(K, v, c)])"


definition set_all :: "card list \<Rightarrow> header \<Rightarrow> header" where
  \<comment> \<open>a run of \<^verbatim>\<open>hdr.set\<close> calls, in the order written\<close>
  "set_all cards hdr = foldl (\<lambda>h (k, v, c). hdr_set k v c h) hdr cards"

definition add_comment :: "string \<Rightarrow> header \<Rightarrow> header" where
  \<comment> \<open>\<^verbatim>\<open>hdr['COMMENT'] = text\<close>\<close>
  "add_comment text h = h @ [(''COMMENT'', VStr text, [])]"

section \<open>Building a header (\<^verbatim>\<open>fetch_header\<close>)\<close>

text \<open>
  \<^verbatim>\<open>datetime\<close>, \<^verbatim>\<open>timedelta\<close> and \<^verbatim>\<open>astropy.time.Time\<close> are library code: their operations
  are parameters of the model, each of which may raise. \<open>plus_seconds t x\<close> is
  \<^verbatim>\<open>t + timedelta(seconds=x)\<close>, \<open>minus_hours t n\<close> is \<^verbatim>\<open>t - timedelta(hours=n)\<close>, \<open>mjd t\<close> is
  \<^verbatim>\<open>Time(t, scale='utc').mjd\<close>.
\<close>

record 'dt timelib =
  plus_seconds :: "'dt \<Rightarrow> pyfloat \<Rightarrow> error + 'dt"
  minus_hours :: "'dt \<Rightarrow> nat \<Rightarrow> error + 'dt"
  strftime :: "'dt \<Rightarrow> string \<Rightarrow> error + string"
  mjd :: "'dt \<Rightarrow> error + pyfloat"

text \<open>The fields of the instrument object that header building reads.\<close>

record charis =
  tel_header :: "entry list"
  statusDictTel :: "string \<rightharpoonup> pyval"
  ao_header :: "entry list"
  statusDictAO :: "string \<rightharpoonup> pyval"
  ao_stat :: int

definition drop_last3 :: "string \<Rightarrow> string" where
  \<comment> \<open>\<^verbatim>\<open>s[:-3]\<close>\<close>
  "drop_last3 s = take (length s - 3) s"

definition fixed_cards :: "'dt timelib \<Rightarrow> pyval \<Rightarrow> pyval \<Rightarrow> 'dt \<Rightarrow> error + header" where
  \<comment> \<open>\<^verbatim>\<open>fetch_header\<close> up to the test of \<^verbatim>\<open>fullHeader\<close>: date and time, frame ID, exposure time\<close>
  "fixed_cards lib frameid itime utc_start =
     ebind (py_float itime) (\<lambda>secs.
     ebind (plus_seconds lib utc_start secs) (\<lambda>utc_end.
     ebind (minus_hours lib utc_start 10) (\<lambda>hst_start.
     ebind (plus_seconds lib hst_start secs) (\<lambda>hst_end.
     ebind (strftime lib utc_start ''%Y-%m-%d'') (\<lambda>date_obs_str.
     ebind (strftime lib utc_start ''%H:%M:%S.%f'') (\<lambda>utc_start_f.
     ebind (strftime lib utc_end ''%H:%M:%S.%f'') (\<lambda>utc_end_f.
     ebind (strftime lib hst_start ''%H:%M:%S.%f'') (\<lambda>hst_start_f.
     ebind (strftime lib hst_end ''%H:%M:%S.%f'') (\<lambda>hst_end_f.
     ebind (mjd lib utc_start) (\<lambda>t_start_mjd.
     ebind (mjd lib utc_end) (\<lambda>t_end_mjd.
       let utc_start_str = drop_last3 utc_start_f;
           utc_end_str = drop_last3 utc_end_f;
           hst_start_str = drop_last3 hst_start_f;
           hst_end_str = drop_last3 hst_end_f
       in Inr (set_all
           [(''DATE-OBS'', VStr date_obs_str, ''Observation start date (yyyy-mm-dd)''),
            (''UT'', VStr utc_start_str, ''HH:MM:SS.SS typical UTC at exposure''),
            (''UT-STR'', VStr utc_start_str, ''HH:MM:SS.SS UTC at exposure start''),
            (''UT-END'', VStr utc_end_str, ''HH:MM:SS.SS UTC at exposure end''),
            (''HST'', VStr hst_start_str, ''HH:MM:SS.SS typical HST at exposure''),
            (''HST-STR'', VStr hst_start_str, ''HH:MM:SS.SS HST at exposure start''),
            (''HST-END'', VStr hst_end_str, ''HH:MM:SS.SS HST at exposure end''),
            (''MJD'', VFloat t_start_mjd, ''Modified Julian Day at typical time''),
            (''MJD-STR'', VFloat t_start_mjd, ''Modified Julian Day at exposure start''),
            (''MJD-END'', VFloat t_end_mjd, ''Modified Julian Day at exposure end''),
            (''FRAMEID'', frameid, ''Image sequential number''),
            (''EXPTIME'', VFloat secs, ''Total integration time of the frame (sec)'')]
           []))))))))))))"

fun table_cards :: "entry list \<Rightarrow> (string \<rightharpoonup> pyval) \<Rightarrow> header \<Rightarrow> error + header" where
  \<comment> \<open>the loop over a definition table and its status dictionary\<close>
  "table_cards [] statusDict hdr = Inr hdr"
| "table_cards ((alias, key, ty, dflt, cmt) # rest) statusDict hdr =
     (if alias = ''NA'' then table_cards rest statusDict (hdr_set key dflt cmt hdr)
      else ebind (py_getitem statusDict alias)
             (\<lambda>v. table_cards rest statusDict (hdr_set key v cmt hdr)))"

definition py_str_split :: "pyval \<Rightarrow> char \<Rightarrow> error + string list" where
  \<comment> \<open>\<^verbatim>\<open>v.split(d)\<close>: only a string has the method\<close>
  "py_str_split v d = (case v of VStr s \<Rightarrow> Inr (py_split_on d s) | _ \<Rightarrow> Inl AttributeError)"

definition float_field :: "string list \<Rightarrow> nat \<Rightarrow> error + pyfloat" where
  \<comment> \<open>\<^verbatim>\<open>float(param[i])\<close>\<close>
  "float_field param i = ebind (py_index param i) (\<lambda>t. py_float (VStr t))"

definition ra_to_deg :: "string list \<Rightarrow> error + pyfloat" where
  "ra_to_deg ra_param =
     ebind (float_field ra_param 0) (\<lambda>h.
     ebind (float_field ra_param 1) (\<lambda>m.
     ebind (float_field ra_param 2) (\<lambda>s.
       Inr (fmulc 15 (fadd (fadd h (fdivc m 60)) (fdivc s 3600))))))"

definition dec_to_deg :: "string list \<Rightarrow> error + pyfloat" where
  "dec_to_deg dec_param =
     ebind (py_index dec_param 0) (\<lambda>d0.
       if CHR ''-'' \<notin> set d0 then
         ebind (float_field dec_param 0) (\<lambda>d.
         ebind (float_field dec_param 1) (\<lambda>m.
         ebind (float_field dec_param 2) (\<lambda>s.
           Inr (fadd (fadd d (fdivc m 60)) (fdivc s 3600)))))
       else
         ebind (float_field dec_param 0) (\<lambda>d.
         ebind (float_field dec_param 1) (\<lambda>m.
         ebind (float_field dec_param 2) (\<lambda>s.
           Inr (fsub (fsub d (fdivc m 60)) (fdivc s 3600))))))"

definition radec_deg :: "(string \<rightharpoonup> pyval) \<Rightarrow> error + pyfloat \<times> pyfloat" where
  \<comment> \<open>the block "convert ra/dec to degrees": the pair \<^verbatim>\<open>(ra_deg, dec_deg)\<close>\<close>
  "radec_deg statusDict =
     ebind (py_getitem statusDict ''FITS.SBR.RA'') (\<lambda>ra.
     ebind (py_getitem statusDict ''FITS.SBR.DEC'') (\<lambda>dec.
     ebind (py_str_split ra CHR '':'') (\<lambda>ra_param.
     ebind (ra_to_deg ra_param) (\<lambda>ra_deg.
     ebind (py_str_split dec CHR '':'') (\<lambda>dec_param.
     ebind (dec_to_deg dec_param) (\<lambda>dec_deg.
       Inr (ra_deg, dec_deg)))))))"

definition wcs_parameters :: "charis \<Rightarrow> error + pyfloat \<times> pyfloat \<times> pyfloat" where
  \<comment> \<open>the block "WCS parameters": \<^verbatim>\<open>imrpad\<close>, \<^verbatim>\<open>ra_deg\<close> and \<^verbatim>\<open>dec_deg\<close>. The sine and
      the cosine are never used (the cards that would take them are under \<^verbatim>\<open>if False\<close>), so
      only their exception is kept: \<^verbatim>\<open>math.sin\<close> of an infinity raises \<^verbatim>\<open>ValueError\<close>.\<close>
  "wcs_parameters self =
     ebind (py_getitem (statusDictAO self) ''AON.IMR.PAD'') (\<lambda>pad.
     ebind (py_float pad) (\<lambda>imrpad.
     ebind (radec_deg (statusDictTel self)) (\<lambda>(ra_deg, dec_deg).
       if is_inf imrpad then Inl ValueError else Inr (imrpad, ra_deg, dec_deg))))"

definition comment_rule :: string where
  "comment_rule = ''------------------------------------------------------------------------''"

definition comment_title :: string where
  "comment_title = ''---------------- Parameters for AO188/LGS -- ---------------------------''"

definition full_cards :: "charis \<Rightarrow> pyval \<Rightarrow> header \<Rightarrow> error + header" where
  \<comment> \<open>\<^verbatim>\<open>fetch_header\<close> after the test of \<^verbatim>\<open>fullHeader\<close>\<close>
  "full_cards self target hdr0 =
     (let hdr1 = hdr_set ''OBJECT'' target ''Target description'' hdr0 in
      ebind (table_cards (tel_header self) (statusDictTel self) hdr1) (\<lambda>hdr2.
      ebind (wcs_parameters self) (\<lambda>wcs.
        let hdr3 = add_comment comment_rule (add_comment comment_title (add_comment comment_rule hdr2))
        in table_cards (ao_header self) (statusDictAO self) hdr3)))"

definition fetch_header ::
  "'dt timelib \<Rightarrow> charis \<Rightarrow> string \<Rightarrow> pyval \<Rightarrow> pyval \<Rightarrow> pyval \<Rightarrow> pyval \<Rightarrow> 'dt \<Rightarrow> pyval
     \<Rightarrow> error + header" where
  \<comment> \<open>\<^verbatim>\<open>fullHeader is False\<close> holds for the object \<^verbatim>\<open>False\<close> alone\<close>
  "fetch_header lib self path frameid mode itime target utc_start fullHeader =
     ebind (fixed_cards lib frameid itime utc_start) (\<lambda>hdr.
       if fullHeader = VBool False then Inr hdr else full_cards self target hdr)"

section \<open>The header query service\<close>

text \<open>
  The OCS delegate object is outside the repository: the two calls the query path makes on it
  are parameters. \<open>requestOCSstatus d\<close> gives the dictionary as the call leaves it.
\<close>

record 'f ocs =
  requestOCSstatus :: "(string \<rightharpoonup> pyval) \<Rightarrow> error + (string \<rightharpoonup> pyval)"
  getFrames :: "pyval \<Rightarrow> pyval \<Rightarrow> error + 'f"

definition return_new_header ::
  "'dt timelib \<Rightarrow> 'f ocs \<Rightarrow> 'dt \<Rightarrow> charis \<Rightarrow> pyval \<Rightarrow> pyval \<Rightarrow> pyval \<Rightarrow> pyval
     \<Rightarrow> (error + header) \<times> charis" where
  \<comment> \<open>the third argument is the value of \<^verbatim>\<open>datetime.utcnow()\<close>; the result comes with the
      instrument object as the call leaves it\<close>
  "return_new_header lib oc now self frameid mode itime fullHeader =
     (case requestOCSstatus oc (statusDictTel self) of
        Inl e \<Rightarrow> (Inl e, self)
      | Inr dT \<Rightarrow>
          let self1 = self\<lparr>statusDictTel := dT\<rparr> in
          (case (if ao_stat self1 = 1 then requestOCSstatus oc (statusDictAO self1)
                 else Inr (statusDictAO self1)) of
             Inl e \<Rightarrow> (Inl e, self1)
           | Inr dA \<Rightarrow>
               let self2 = self1\<lparr>statusDictAO := dA\<rparr> in
               (ebind (py_float itime) (\<lambda>secs.
                  fetch_header lib self2 ''here'' frameid mode (VFloat secs) (VStr ''planetX'')
                    now fullHeader),
                self2)))"

definition reqframes :: "'f ocs \<Rightarrow> pyval list \<Rightarrow> error + 'f" where
  \<comment> \<open>\<^verbatim>\<open>reqframes(*cmdargs)\<close> with the defaults \<^verbatim>\<open>num=1, type="A"\<close>\<close>
  "reqframes oc cmdargs =
     (case cmdargs of
        [] \<Rightarrow> getFrames oc (VInt 1) (VStr ''A'')
      | [num] \<Rightarrow> getFrames oc num (VStr ''A'')
      | [num, ty] \<Rightarrow> getFrames oc num ty
      | _ \<Rightarrow> Inl TypeError)"

datatype 'f reply = RHeader header | RFrames 'f | RNone

definition with_reply :: "('a \<Rightarrow> 'f reply) \<Rightarrow> (error + 'a) \<Rightarrow> error + 'f reply" where
  "with_reply f r = (case r of Inl e \<Rightarrow> Inl e | Inr x \<Rightarrow> Inr (f x))"

definition localCmd ::
  "'dt timelib \<Rightarrow> 'f ocs \<Rightarrow> 'dt \<Rightarrow> charis \<Rightarrow> string \<Rightarrow> (error + 'f reply) \<times> charis" where
  \<comment> \<open>the arguments reach \<^verbatim>\<open>return_new_header\<close> as the strings that \<^verbatim>\<open>split\<close> made;
      a call with too few or too many of them is a \<^verbatim>\<open>TypeError\<close>\<close>
  "localCmd lib oc now self cmdStr =
     (case py_split cmdStr of
        [] \<Rightarrow> (Inl IndexError, self)
      | cmd # cmdargs \<Rightarrow>
          if cmd = ''hdr'' then
            (case map VStr cmdargs of
               [frameid, mode, itime] \<Rightarrow>
                 (let (r, self') = return_new_header lib oc now self frameid mode itime (VBool True)
                  in (with_reply RHeader r, self'))
             | [frameid, mode, itime, fullHeader] \<Rightarrow>
                 (let (r, self') = return_new_header lib oc now self frameid mode itime fullHeader
                  in (with_reply RHeader r, self'))
             | _ \<Rightarrow> (Inl TypeError, self))
          else if cmd = ''seqno'' then (with_reply RFrames (reqframes oc (map VStr cmdargs)), self)
          else (Inr RNone, self))"

text \<open>
  One connection, as \<^verbatim>\<open>HeaderQueryHandler.handle\<close> sees it. What goes out is
  \<^verbatim>\<open>hdr.tostring()\<close>: the outcome \<open>Sent hdr\<close> stands for those bytes. When the handler itself
  dies (a reply that is not a header has no \<^verbatim>\<open>tostring\<close>), nothing is sent. In both cases
  the socket server closes the connection afterwards.
\<close>

datatype logrec = Warning string error

datatype outcome = Sent header | NotSent error

definition handle ::
  "('s \<Rightarrow> string \<Rightarrow> (error + 'f reply) \<times> 's) \<Rightarrow> 's \<Rightarrow> string \<Rightarrow> (logrec list \<times> outcome) \<times> 's" where
  "handle localFunc self received =
     (let req = py_strip (take 1024 received) in
      case localFunc self req of
        (Inl e, self') \<Rightarrow> (([Warning req e], Sent []), self')
      | (Inr (RHeader hdr), self') \<Rightarrow> (([], Sent hdr), self')
      | (Inr _, self') \<Rightarrow> (([], NotSent AttributeError), self'))"

text \<open>
  \<^verbatim>\<open>HeaderTask.execute\<close>. Each round of the loop tests the quit event and then waits for one
  request until the timeout. The environment is the list of rounds: whether the event is set
  when tested, and the bytes of the connection that arrives, if one does. The result lists what
  each round wrote to the log and did to its connection.
\<close>

fun execute ::
  "('s \<Rightarrow> string \<Rightarrow> (error + 'f reply) \<times> 's) \<Rightarrow> 's \<Rightarrow> (bool \<times> string option) list
     \<Rightarrow> (logrec list \<times> outcome option) list" where
  "execute localFunc self [] = []"
| "execute localFunc self ((ev_quit, incoming) # rounds) =
     (if ev_quit then []
      else (case incoming of
              None \<Rightarrow> ([], None) # execute localFunc self rounds
            | Some received \<Rightarrow>
                (let ((lg, out), self') = handle localFunc self received
                 in (lg, Some out) # execute localFunc self' rounds)))"

section \<open>Command dispatch\<close>






section \<open>The \<^verbatim>\<open>ramp\<close> command\<close>

text \<open>
  What \<^verbatim>\<open>ramp\<close> changes: the values reported to the OCS under each tag
  (\<^verbatim>\<open>self.ocs.setvals\<close>) and the shell commands run (\<^verbatim>\<open>execCmd\<close>), in order. The \<^verbatim>\<open>%\<close>
  operator on strings is a parameter; \<^verbatim>\<open>nreset\<close> and \<^verbatim>\<open>nread\<close> are integers and
  \<^verbatim>\<open>exptime\<close> is a float, as their defaults are. The two readings of \<^verbatim>\<open>time.time()\<close> are
  arguments.
\<close>

record ocs_store =
  vals :: "string \<Rightarrow> (string \<rightharpoonup> pyval)"
  executed :: "string list"

definition setvals :: "ocs_store \<Rightarrow> string \<Rightarrow> (string \<times> pyval) list \<Rightarrow> ocs_store" where
  "setvals st tag kw = st\<lparr>vals := (vals st)(tag := vals st tag ++ map_of kw)\<rparr>"

definition execCmd :: "ocs_store \<Rightarrow> string \<Rightarrow> ocs_store" where
  "execCmd st cmdStr = st\<lparr>executed := executed st @ [cmdStr]\<rparr>"

definition execOneCmd ::
  "(string \<Rightarrow> pyval list \<Rightarrow> string) \<Rightarrow> ocs_store \<Rightarrow> string \<Rightarrow> string \<Rightarrow> pyfloat \<Rightarrow> ocs_store" where
  "execOneCmd fmt st actor cmdStr timelim =
     execCmd st (fmt ''oneCmd.py %s --level=i --timelim=%0.1f %s''
                   [VStr actor, VFloat timelim, VStr cmdStr])"

fun fgt0 :: "pyfloat \<Rightarrow> bool" where
  \<comment> \<open>\<^verbatim>\<open>x > 0\<close>\<close>
  "fgt0 (Fin a) = (0 < a)"
| "fgt0 PInf = True"
| "fgt0 NInf = False"
| "fgt0 NaN = False"

definition ramp ::
  "(string \<Rightarrow> pyval list \<Rightarrow> string) \<Rightarrow> pyfloat \<times> pyfloat \<Rightarrow> ocs_store \<Rightarrow> string \<Rightarrow> pyval
     \<Rightarrow> pyfloat \<Rightarrow> int \<Rightarrow> int \<Rightarrow> ocs_store" where
  "ramp fmt clock st tag exptype exptime nreset nread =
     (let subtag = tag @ ''.1'';
          st1 = setvals st tag [(''subpath'', VStr subtag)]
      in if 0 < nread \<and> fgt0 exptime then
           setvals st1 subtag
             [(''task_error'', VStr ''Either exptime OR nread can be set. Not both.'')]
         else
           (let st2 = setvals st1 subtag
                        [(''task_start'', VFloat (fst clock)),
                         (''cmd_str'', VStr (fmt ''Taking a %s ramp(%s, %s)''
                                               [exptype, VInt nreset, VInt nread]))];
                (readArg, timelim) =
                  (if 0 < nread
                   then (fmt ''nread=%d'' [VInt nread],
                         Fin (of_int (nread + nreset) * (3 / 2) + 20))
                   else (fmt ''itime=%0.1f'' [VFloat exptime],
                         fadd (fadd (Fin (of_int nreset * (3 / 2))) exptime) (Fin 20)));
                st3 = execOneCmd fmt st2 ''hx''
                        (fmt ''ramp nreset=%d %s'' [VInt nreset, VStr readArg]) timelim;
                st4 = setvals st3 subtag [(''cmd_str'', VStr ''Moved! '')]
            in setvals st4 subtag
                 [(''task_end'', VFloat (snd clock)), (''cmd_str'', VStr ''Done with ramp'')]))"

section \<open>Example environments\<close>

text \<open>
  Instances of the parameters, for evaluating the model on concrete inputs: a clock that counts
  seconds and prints a time as the format it was asked for, an OCS that leaves a status
  dictionary as it is, and a \<^verbatim>\<open>%\<close> that keeps the format.
\<close>

definition ex_lib :: "int timelib" where
  "ex_lib = \<lparr> plus_seconds = (\<lambda>t x. case x of Fin r \<Rightarrow> Inr (t + \<lfloor>r\<rfloor>)
                                       | NaN \<Rightarrow> Inl ValueError | _ \<Rightarrow> Inl OverflowError),
             minus_hours = (\<lambda>t n. Inr (t - 3600 * int n)),
             strftime = (\<lambda>t f. Inr f),
             mjd = (\<lambda>t. Inr (Fin (of_int t / 86400))) \<rparr>"

definition ex_ocs :: "unit ocs" where
  "ex_ocs = \<lparr> requestOCSstatus = (\<lambda>d. Inr d), getFrames = (\<lambda>num ty. Inr ()) \<rparr>"

definition ex_fmt :: "string \<Rightarrow> pyval list \<Rightarrow> string" where
  "ex_fmt f args = f"

definition ex_dictTel :: "string \<rightharpoonup> pyval" where
  "ex_dictTel = [''FITS.SBR.RA'' \<mapsto> VStr ''10:00:00'', ''FITS.SBR.DEC'' \<mapsto> VStr ''-20:30:00'']"

definition ex_dictAO :: "string \<rightharpoonup> pyval" where
  "ex_dictAO = [''AON.IMR.PAD'' \<mapsto> VStr ''0.0'']"

definition ex_self :: "entry list \<Rightarrow> entry list \<Rightarrow> charis" where
  "ex_self tel ao = \<lparr> tel_header = tel, statusDictTel = ex_dictTel,
                      ao_header = ao, statusDictAO = ex_dictAO, ao_stat = 1 \<rparr>"

definition ex_store :: ocs_store where
  "ex_store = \<lparr> vals = (\<lambda>tag. Map.empty), executed = [] \<rparr>"

section \<open>Predicates used in the statements\<close>



fun first_missing :: "entry list \<Rightarrow> (string \<rightharpoonup> pyval) \<Rightarrow> string option" where
  \<comment> \<open>the first alias of a table, other than \<^verbatim>\<open>NA\<close>, that the status dictionary lacks\<close>
  "first_missing [] statusDict = None"
| "first_missing ((alias, key, ty, dflt, cmt) # rest) statusDict =
     (if alias \<noteq> ''NA'' \<and> statusDict alias = None then Some alias
      else first_missing rest statusDict)"







section \<open>Right ascension and declination in degrees\<close>




section \<open>The test of \<^verbatim>\<open>fullHeader\<close>\<close>



section \<open>A handler that raises\<close>

text \<open>
  C4. When the function bound to the query server raises on a request, the handler logs a
  warning and sends the serialisation of an empty header, and the loop of the server goes on
  with the next round.
\<close>

theorem handler_failure_response:
  assumes "localFunc self (py_strip (take 1024 received)) = (Inl e, self')"
  shows "handle localFunc self received
           = (([Warning (py_strip (take 1024 received)) e], Sent []), self')
         \<and> execute localFunc self ((False, Some received) # rounds)
           = ([Warning (py_strip (take 1024 received)) e], Some (Sent []))
               # execute localFunc self' rounds"
  using assms by (simp add: handle_def)

theorem handler_failure_response_witness:
  "handle (localCmd ex_lib ex_ocs 0) (ex_self [] []) '' hdr 1 2 abc ''
     = (([Warning ''hdr 1 2 abc'' ValueError], Sent []), ex_self [] [])
   \<and> execute (localCmd ex_lib ex_ocs 0) (ex_self [] []) [(False, Some '' hdr 1 2 abc ''), (True, None)]
     = [([Warning ''hdr 1 2 abc'' ValueError], Some (Sent []))]"
proof -
  have st: "py_strip (take 1024 '' hdr 1 2 abc '') = ''hdr 1 2 abc''" by code_simp
  have sp: "py_split ''hdr 1 2 abc'' = [''hdr'', ''1'', ''2'', ''abc'']" by code_simp
  have fl: "float_of_string ''abc'' = None" by code_simp
  have h: "localCmd ex_lib ex_ocs 0 (ex_self [] []) (py_strip (take 1024 '' hdr 1 2 abc ''))
             = (Inl ValueError, ex_self [] [])"
    unfolding st
    by (simp add: localCmd_def sp return_new_header_def ex_ocs_def ex_self_def py_float_def fl
          ebind_def with_reply_def)
  from handler_failure_response [where localFunc = "localCmd ex_lib ex_ocs 0"
      and self = "ex_self [] []" and received = "'' hdr 1 2 abc ''" and e = ValueError
      and self' = "ex_self [] []" and rounds = "[(True, None)]", OF h]
  show ?thesis
    unfolding st by simp
qed

section \<open>Dispatching a command\<close>




section \<open>\<^verbatim>\<open>ramp\<close> with both \<^verbatim>\<open>nread\<close> and \<^verbatim>\<open>exptime\<close>\<close>

text \<open>
  C8 as stated fails: before it tests its parameters, \<^verbatim>\<open>ramp\<close> has already recorded the
  sub-tag under the original tag (\<^verbatim>\<open>subpath\<close>), so writing \<^verbatim>\<open>task_error\<close> is not its only
  effect.
\<close>

theorem ramp_subpath_counterexample:
  "vals (ramp ex_fmt (Fin 0, Fin 1) ex_store ''t'' (VStr ''TEST'') (Fin 1) 1 2) ''t'' ''subpath'' = Some (VStr ''t.1'')
   \<and> vals (setvals ex_store ''t.1'' [(''task_error'', VStr ''Either exptime OR nread can be set. Not both.'')]) ''t'' ''subpath'' = None"
  by (simp add: ramp_def setvals_def ex_store_def Let_def)

text \<open>
  C8, amended. With a positive \<^verbatim>\<open>nread\<close> and a positive \<^verbatim>\<open>exptime\<close>, \<^verbatim>\<open>ramp\<close> records
  \<^verbatim>\<open>subpath\<close> under the tag, writes \<^verbatim>\<open>task_error\<close> under the sub-tag and returns: nothing
  else changes, no command is executed and no \<^verbatim>\<open>task_start\<close> is written.
\<close>

theorem ramp_ambiguous:
  assumes "0 < nread" and "fgt0 exptime"
  shows "ramp fmt clock st tag exptype exptime nreset nread
           = setvals (setvals st tag [(''subpath'', VStr (tag @ ''.1''))]) (tag @ ''.1'')
               [(''task_error'', VStr ''Either exptime OR nread can be set. Not both.'')]
         \<and> executed (ramp fmt clock st tag exptype exptime nreset nread) = executed st
         \<and> vals (ramp fmt clock st tag exptype exptime nreset nread) (tag @ ''.1'') ''task_start''
             = vals st (tag @ ''.1'') ''task_start''"
  using assms by (simp add: ramp_def setvals_def Let_def)

theorem ramp_ambiguous_witness:
  "executed (ramp ex_fmt (Fin 0, Fin 1) ex_store ''t'' (VStr ''TEST'') (Fin 1) 1 2) = []
   \<and> vals (ramp ex_fmt (Fin 0, Fin 1) ex_store ''t'' (VStr ''TEST'') (Fin 1) 1 2) ''t.1'' ''task_start''
       = None"
  using ramp_ambiguous [where nread = 2 and exptime = "Fin 1" and fmt = ex_fmt
      and clock = "(Fin 0, Fin 1)" and st = ex_store and tag = "''t''" and exptype = "VStr ''TEST''"
      and nreset = 1]
  by (simp add: ex_store_def setvals_def)

section \<open>Loading a table with a malformed default\<close>








section \<open>An alias missing from a status dictionary\<close>

lemma first_missing_iff:
  "first_missing es d \<noteq> None \<longleftrightarrow> (\<exists>(alias, key, ty, dflt, cmt) \<in> set es. alias \<noteq> ''NA'' \<and> d alias = None)"
  by (induction es d rule: first_missing.induct) auto






section \<open>The short header and the full header\<close>













section \<open>The request \<^verbatim>\<open>hdr 9999 1 4.5\<close>\<close>











end
